theory Spec2Isabelle
  imports Complex_Main
begin

section \<open>JavaScript values used by the map and the slipway view\<close>

text \<open>
  Strings are lists of code units; every code unit that occurs in the claims is below 256,
  so a \<open>char\<close> stands for one code unit (the letter e with acute accent is \<open>CHR 0xE9\<close>).
  An optional property of an object is an \<open>option\<close>: \<open>None\<close> is the absent property
  (\<open>undefined\<close>).
\<close>

definition truthy :: "string option \<Rightarrow> bool" where
  \<comment> \<open>truthiness of an optional string: \<open>undefined\<close> and the empty string are falsy\<close>
  "truthy v = (case v of None \<Rightarrow> False | Some s \<Rightarrow> s \<noteq> [])"

definition orElse :: "string option \<Rightarrow> string \<Rightarrow> string" where
  \<comment> \<open>\<open>v || d\<close> for an optional string \<open>v\<close> and a string literal \<open>d\<close>\<close>
  "orElse v d = (case v of None \<Rightarrow> d | Some s \<Rightarrow> if s = [] then d else s)"

definition isWhiteSpace :: "char \<Rightarrow> bool" where
  \<comment> \<open>white space and line terminators among the code units below 256\<close>
  "isWhiteSpace c = (c \<in> set [CHR 0x09, CHR 0x0A, CHR 0x0B, CHR 0x0C, CHR 0x0D, CHR 0x20, CHR 0xA0])"

definition trim :: "string \<Rightarrow> string" where
  "trim s = rev (dropWhile isWhiteSpace (rev (dropWhile isWhiteSpace s)))"

fun splitAux :: "string \<Rightarrow> nat \<Rightarrow> string \<Rightarrow> string \<Rightarrow> string list" where
  "splitAux sep skip cur [] = [rev cur]"
| "splitAux sep skip cur (c # cs) =
     (if 0 < skip then splitAux sep (skip - 1) cur cs
      else if take (length sep) (c # cs) = sep then rev cur # splitAux sep (length sep - 1) [] cs
      else splitAux sep 0 (c # cur) cs)"

definition split :: "string \<Rightarrow> string \<Rightarrow> string list" where
  \<comment> \<open>\<open>s.split(sep)\<close>: \<open>cur\<close> holds the piece being read, reversed; after a separator
      is found its remaining \<open>length sep - 1\<close> code units are skipped\<close>
  "split sep s = (if sep = [] then map (\<lambda>c. [c]) s else splitAux sep 0 [] s)"

fun join :: "string \<Rightarrow> string list \<Rightarrow> string" where
  "join sep [] = []"
| "join sep [x] = x"
| "join sep (x # y # ys) = x @ sep @ join sep (y # ys)"

subsection \<open>Numbers and parseFloat\<close>

text \<open>
  A number is NaN, an infinity (the flag says negative) or a finite value. Finite values are
  kept exact: the rounding of a decimal literal to a double and its overflow are not
  modelled, and no claim depends on them. \<open>parseFloat\<close> skips leading white space and reads the longest prefix that
  is a decimal literal (sign, digits, fraction, exponent); if there is none the result is NaN.
\<close>

datatype jsnum = NaN | Infinity bool | Num rat

definition isDigit :: "char \<Rightarrow> bool" where
  "isDigit c = (48 \<le> (of_char c :: nat) \<and> (of_char c :: nat) \<le> 57)"

definition digitsVal :: "string \<Rightarrow> nat" where
  "digitsVal ds = foldl (\<lambda>a c. 10 * a + ((of_char c :: nat) - 48)) 0 ds"

definition scale10 :: "rat \<Rightarrow> int \<Rightarrow> rat" where
  "scale10 x e = (if 0 \<le> e then x * 10 ^ nat e else x / 10 ^ nat (- e))"

definition exponentPart :: "string \<Rightarrow> int" where
  "exponentPart r =
     (case r of
        [] \<Rightarrow> 0
      | c # r' \<Rightarrow>
          if c = CHR ''e'' \<or> c = CHR ''E'' then
            (let neg = (take 1 r' = ''-'');
                 r'' = (if take 1 r' = ''-'' \<or> take 1 r' = ''+'' then drop 1 r' else r');
                 ds = takeWhile isDigit r''
             in if ds = [] then 0 else if neg then - int (digitsVal ds) else int (digitsVal ds))
          else 0)"

definition parseFloat :: "string \<Rightarrow> jsnum" where
  "parseFloat s =
     (let t = dropWhile isWhiteSpace s;
          neg = (take 1 t = ''-'');
          u = (if take 1 t = ''-'' \<or> take 1 t = ''+'' then drop 1 t else t)
      in if take 8 u = ''Infinity'' then Infinity neg
         else
           (let ip = takeWhile isDigit u;
                r1 = dropWhile isDigit u;
                hasDot = (take 1 r1 = ''.'');
                fp = (if hasDot then takeWhile isDigit (drop 1 r1) else []);
                r2 = (if hasDot then dropWhile isDigit (drop 1 r1) else r1)
            in if ip = [] \<and> fp = [] then NaN
               else
                 (let m = scale10 (of_nat (digitsVal (ip @ fp))) (exponentPart r2 - int (length fp))
                  in Num (if neg then - m else m))))"

section \<open>The data model\<close>

record Comment =
  commentId :: string
  userId :: string
  userName :: string
  userEmail :: string
  commentText :: string
  timestamp :: nat
  rating :: "nat option"

text \<open>The interface \<open>Slipway\<close> of types/Slipway.ts; a property marked \<open>?\<close> is optional.\<close>

record Slipway =
  id' :: string
  name :: string
  description :: string
  latitude :: jsnum
  longitude :: jsnum
  facilities :: "string list option"
  imageUrl :: "string option"
  imgs :: "string list option"
  comments :: "Comment list option"
  charges :: "string option"
  nearestPlace :: "string option"
  rampType :: "string option"
  suitability :: "string option"
  directions :: "string option"
  email :: "string option"
  lowerArea :: "string option"
  mobilePhoneNumber :: "string option"
  navigationalHazards :: "string option"
  rampDescription :: "string option"
  rampLength :: "string option"
  upperArea :: "string option"
  website :: "string option"

text \<open>
  A record of the remote store is an object: a map from property names to values. The
  values that occur are strings, numbers, lists of strings (image ids, facilities) and lists
  of comments.
\<close>

datatype jsval = JStr string | JNum jsnum | JStrs "string list" | JComments "Comment list"

type_synonym jsobj = "string \<rightharpoonup> jsval"

definition truthyVal :: "jsval \<Rightarrow> bool" where
  \<comment> \<open>truthiness of a value: the empty string, zero and NaN are falsy, an array is truthy\<close>
  "truthyVal v =
     (case v of
        JStr s \<Rightarrow> s \<noteq> []
      | JNum n \<Rightarrow> n \<noteq> NaN \<and> n \<noteq> Num 0
      | JStrs xs \<Rightarrow> True
      | JComments cs \<Rightarrow> True)"

text \<open>
  The entity is the typed \<open>Slipway\<close> of the interface, so a property that the join copies
  is read at the type the interface gives it: \<open>strField\<close> for the string properties,
  \<open>strsField\<close> for \<open>imgs\<close> and \<open>ImageIds\<close>, \<open>commentsField\<close> for \<open>comments\<close>. A
  falsy value of another type behaves as an absent one (the default is taken). A truthy
  value of another type would be copied into the entity as it is; the typed entity cannot
  hold it and shows the default in its place, so for such a record only the id, the
  coordinates and the facility list of the entity are those of the code, and the theorems
  about the join read no other property. \<open>Facilities\<close> is not copied but split, and there
  a value of another type makes the code throw: see \<open>facilitiesOf\<close>.
\<close>

definition strField :: "jsobj \<Rightarrow> string \<Rightarrow> string option" where
  "strField d k = (case d k of Some (JStr s) \<Rightarrow> Some s | _ \<Rightarrow> None)"

definition strsField :: "jsobj \<Rightarrow> string \<Rightarrow> string list option" where
  "strsField d k = (case d k of Some (JStrs xs) \<Rightarrow> Some xs | _ \<Rightarrow> None)"

definition commentsField :: "jsobj \<Rightarrow> string \<Rightarrow> Comment list option" where
  "commentsField d k = (case d k of Some (JComments cs) \<Rightarrow> Some cs | _ \<Rightarrow> None)"

section \<open>Map component: join of the two remote tables\<close>

datatype jsError = TypeError

definition facilitiesOf :: "jsobj \<Rightarrow> jsError + string list" where
  \<comment> \<open>\<open>details.Facilities ? details.Facilities.split(', ').filter(f => f.trim()) : []\<close>:
      only a string has \<open>split\<close>, so a truthy value of another type throws\<close>
  "facilitiesOf details =
     (case details ''Facilities'' of
        None \<Rightarrow> Inr []
      | Some (JStr s) \<Rightarrow>
          if s = [] then Inr [] else Inr (filter (\<lambda>f. trim f \<noteq> []) (split '', '' s))
      | Some v \<Rightarrow> if truthyVal v then Inl TypeError else Inr [])"

definition parseFacilities :: "jsobj \<Rightarrow> string list" where
  \<comment> \<open>the facility list of the entity: what \<open>facilitiesOf\<close> yields when it does not throw
      (when it throws no entity is built)\<close>
  "parseFacilities details = (case facilitiesOf details of Inl e \<Rightarrow> [] | Inr fs \<Rightarrow> fs)"

definition mkSlipway :: "string \<Rightarrow> string list \<Rightarrow> jsobj \<Rightarrow> Slipway" where
  \<comment> \<open>the object literal built in \<open>fetchSlipways\<close>; called with \<open>length coords \<ge> 2\<close> and
      when \<open>facilitiesOf\<close> does not throw\<close>
  "mkSlipway slipwayId coords details =
     \<lparr> id' = slipwayId,
       name = orElse (strField details ''Name'') ''Unknown'',
       description = orElse (strField details ''Description'') ''No description available'',
       latitude = parseFloat (coords ! 0),
       longitude = parseFloat (coords ! 1),
       facilities = Some (parseFacilities details),
       imageUrl = None,
       imgs = Some (case strsField details ''imgs'' of
                      Some xs \<Rightarrow> xs
                    | None \<Rightarrow> (case strsField details ''ImageIds'' of Some ys \<Rightarrow> ys | None \<Rightarrow> [])),
       comments = Some (case commentsField details ''comments'' of Some cs \<Rightarrow> cs | None \<Rightarrow> []),
       charges = Some (orElse (strField details ''Charges'') ''Unknown''),
       nearestPlace = Some (orElse (strField details ''NearestPlace'') ''Unknown''),
       rampType = Some (orElse (strField details ''RampType'') ''Unknown''),
       suitability = Some (orElse (strField details ''Suitability'') ''Unknown''),
       directions = Some (orElse (strField details ''Directions'') []),
       email = Some (orElse (strField details ''Email'') []),
       lowerArea = Some (orElse (strField details ''LowerArea'') []),
       mobilePhoneNumber = Some (orElse (strField details ''MobilePhoneNumber'') []),
       navigationalHazards = Some (orElse (strField details ''NavigationalHazards'') []),
       rampDescription = Some (orElse (strField details ''RampDescription'') []),
       rampLength = Some (orElse (strField details ''RampLength'') []),
       upperArea = Some (orElse (strField details ''UpperArea'') []),
       website = Some (orElse (strField details ''Website'') []) \<rparr>"

text \<open>
  A table read from the remote store is a plain object keyed by id: an association list of
  its own properties, in the order \<open>Object.keys\<close> yields the keys. The coordinate table
  \<open>latLngsData\<close> holds arrays of strings, the detail table \<open>detailsData\<close> holds objects.
  The keys of the loop are own keys of the coordinate table, so \<open>latLngsData[slipwayId]\<close>
  is \<open>map_of latLngsData slipwayId\<close>. The loop reads \<open>detailsData[slipwayId]\<close> for a key
  that the detail table need not have, and a property read also finds what every plain
  object inherits: for an id such as \<open>toString\<close> it yields the inherited member when the
  table has no own entry. An inherited member is a function (for \<open>__proto__\<close> the
  prototype itself): it is truthy and has none of the properties the join reads. An array
  and an object are truthy too, so of the guard \<open>coords && details && coords.length >= 2\<close>
  the first two conjuncts say that the lookup finds something.
\<close>

type_synonym 'a table = "(string \<times> 'a) list"

type_synonym latLngs = "string list table"

type_synonym slipwayDetails = "jsobj table"

definition objectPrototypeMembers :: "string list" where
  "objectPrototypeMembers =
     [''constructor'', ''hasOwnProperty'', ''isPrototypeOf'', ''propertyIsEnumerable'',
      ''toLocaleString'', ''toString'', ''valueOf'', ''__proto__'', ''__defineGetter__'',
      ''__defineSetter__'', ''__lookupGetter__'', ''__lookupSetter__'']"

definition inheritedMember :: jsobj where
  \<comment> \<open>an inherited member, as the join sees it: every property it reads is absent\<close>
  "inheritedMember = Map.empty"

definition detailsAt :: "slipwayDetails \<Rightarrow> string \<Rightarrow> jsobj option" where
  \<comment> \<open>\<open>detailsData[slipwayId]\<close>: the own entry, else the inherited member of that name\<close>
  "detailsAt detailsData slipwayId =
     (case map_of detailsData slipwayId of
        Some details \<Rightarrow> Some details
      | None \<Rightarrow> if slipwayId \<in> set objectPrototypeMembers then Some inheritedMember else None)"

definition joinStep :: "latLngs \<Rightarrow> slipwayDetails \<Rightarrow> string \<Rightarrow> jsError + Slipway list" where
  \<comment> \<open>the callback of \<open>forEach\<close> for one key: the entities it pushes, or the error it throws\<close>
  "joinStep latLngsData detailsData slipwayId =
     (case map_of latLngsData slipwayId of
        None \<Rightarrow> Inr []
      | Some coords \<Rightarrow>
          (case detailsAt detailsData slipwayId of
             None \<Rightarrow> Inr []
           | Some details \<Rightarrow>
               if 2 \<le> length coords then
                 (case facilitiesOf details of
                    Inl e \<Rightarrow> Inl e
                  | Inr fs \<Rightarrow> Inr [mkSlipway slipwayId coords details])
               else Inr []))"

abbreviation pushed :: "latLngs \<Rightarrow> slipwayDetails \<Rightarrow> string \<Rightarrow> Slipway list" where
  "pushed latLngsData detailsData slipwayId \<equiv>
     (case joinStep latLngsData detailsData slipwayId of Inl e \<Rightarrow> [] | Inr xs \<Rightarrow> xs)"

fun joinLoop :: "latLngs \<Rightarrow> slipwayDetails \<Rightarrow> string list \<Rightarrow> Slipway list \<Rightarrow> jsError + Slipway list" where
  "joinLoop latLngsData detailsData [] slipwayData = Inr slipwayData"
| "joinLoop latLngsData detailsData (slipwayId # ks) slipwayData =
     (case joinStep latLngsData detailsData slipwayId of
        Inl e \<Rightarrow> Inl e
      | Inr xs \<Rightarrow> joinLoop latLngsData detailsData ks (slipwayData @ xs))"

definition joinSlipways :: "latLngs \<Rightarrow> slipwayDetails \<Rightarrow> jsError + Slipway list" where
  \<comment> \<open>\<open>Object.keys(latLngsData).forEach(...)\<close> pushing onto an empty \<open>slipwayData\<close>; an
      error thrown by the callback ends the loop\<close>
  "joinSlipways latLngsData detailsData = joinLoop latLngsData detailsData (map fst latLngsData) []"

section \<open>Map component: filters\<close>

definition rampLengthPred :: "string \<Rightarrow> Slipway \<Rightarrow> bool" where
  \<comment> \<open>\<open>slipway.rampLength && slipway.rampLength === rampLengthFilter\<close>\<close>
  "rampLengthPred rampLengthFilter slipway =
     (truthy (rampLength slipway) \<and> rampLength slipway = Some rampLengthFilter)"

definition suitabilityPred :: "string \<Rightarrow> Slipway \<Rightarrow> bool" where
  "suitabilityPred suitabilityFilter slipway =
     (if \<not> truthy (suitability slipway) then False
      else if suitabilityFilter = ''Portable Only'' then True
      else if suitabilityFilter = ''Small trailer can be pushed'' then
        suitability slipway = Some ''Small trailer can be pushed'' \<or>
        suitability slipway = Some ''Large trailer needs a car''
      else if suitabilityFilter = ''Large trailer needs a car'' then
        suitability slipway = Some ''Large trailer needs a car''
      else False)"

definition filterSlipways :: "string \<Rightarrow> string \<Rightarrow> Slipway list \<Rightarrow> Slipway list" where
  \<comment> \<open>the body of the filter effect; a filter is active when its string is non-empty\<close>
  "filterSlipways rampLengthFilter suitabilityFilter slipways =
     (let filtered = (if rampLengthFilter \<noteq> [] then filter (rampLengthPred rampLengthFilter) slipways
                      else slipways)
      in if suitabilityFilter \<noteq> [] then filter (suitabilityPred suitabilityFilter) filtered
         else filtered)"

section \<open>Map component: loading and the fallback set\<close>

definition sampleSlipway :: "string \<Rightarrow> string \<Rightarrow> string \<Rightarrow> jsnum \<Rightarrow> jsnum \<Rightarrow> Slipway" where
  \<comment> \<open>an object literal with the five required properties and no other\<close>
  "sampleSlipway i n d lat lng =
     \<lparr> id' = i, name = n, description = d, latitude = lat, longitude = lng,
       facilities = None, imageUrl = None, imgs = None, comments = None, charges = None,
       nearestPlace = None, rampType = None, suitability = None, directions = None,
       email = None, lowerArea = None, mobilePhoneNumber = None, navigationalHazards = None,
       rampDescription = None, rampLength = None, upperArea = None, website = None \<rparr>"

definition fallbackSlipways :: "Slipway list" where
  "fallbackSlipways =
     [ sampleSlipway ''1'' ''Sample Slipway 1'' ''A beautiful slipway with great facilities''
         (Num (51505 / 1000)) (Num (- (9 / 100))),
       sampleSlipway ''2'' ''Sample Slipway 2'' ''Another great slipway with stunning views''
         (Num (51515 / 1000)) (Num (- (1 / 10))),
       sampleSlipway ''3'' ''Sample Slipway 3'' ''Perfect for launching boats''
         (Num (51525 / 1000)) (Num (- (11 / 100))) ]"

text \<open>
  The result of \<open>get(ref)\<close>: the promise rejects, or it yields a snapshot. A snapshot
  holds the value of the node, \<open>None\<close> when the node holds no data, and \<open>exists()\<close>
  is true when there is data. The remote store keeps no empty node: a table without entries
  is an absent table, which \<open>snapshotOf\<close> writes out.
\<close>

datatype 'a fetched = GetRejected | Snapshot "'a option"

definition snapshotOf :: "'a table \<Rightarrow> 'a table fetched" where
  "snapshotOf table = Snapshot (if table = [] then None else Some table)"

record map_state =
  slipways :: "Slipway list"
  filteredSlipways :: "Slipway list"
  loading :: bool
  error :: "string option"
  rampLengthFilter :: string
  suitabilityFilter :: string

definition initialMapState :: map_state where
  "initialMapState =
     \<lparr> slipways = [], filteredSlipways = [], loading = True, error = None,
       rampLengthFilter = [], suitabilityFilter = [] \<rparr>"

definition loadFailed :: "map_state \<Rightarrow> map_state" where
  \<comment> \<open>the \<open>catch\<close> block followed by \<open>finally\<close>\<close>
  "loadFailed st =
     st\<lparr> error := Some ''Failed to load slipway data'', slipways := fallbackSlipways,
         loading := False \<rparr>"

definition fetchSlipways :: "latLngs fetched \<Rightarrow> slipwayDetails fetched \<Rightarrow> map_state \<Rightarrow> map_state" where
  \<comment> \<open>a rejected \<open>get\<close>, a missing snapshot and an error thrown by the join all end in
      the \<open>catch\<close> block\<close>
  "fetchSlipways latLngsSnapshot detailsSnapshot st =
     (case (latLngsSnapshot, detailsSnapshot) of
        (Snapshot l, Snapshot d) \<Rightarrow>
          (case (l, d) of
             (Some latLngsData, Some detailsData) \<Rightarrow>
               (case joinSlipways latLngsData detailsData of
                  Inl e \<Rightarrow> loadFailed st
                | Inr slipwayData \<Rightarrow>
                    st\<lparr> slipways := slipwayData, filteredSlipways := slipwayData,
                        error := None, loading := False \<rparr>)
           | _ \<Rightarrow> loadFailed st)
      | _ \<Rightarrow> loadFailed st)"

definition filterEffect :: "map_state \<Rightarrow> map_state" where
  \<comment> \<open>the effect that runs whenever \<open>slipways\<close> or a filter changes\<close>
  "filterEffect st =
     st\<lparr> filteredSlipways := filterSlipways (rampLengthFilter st) (suitabilityFilter st) (slipways st) \<rparr>"

definition loadSlipways :: "latLngs fetched \<Rightarrow> slipwayDetails fetched \<Rightarrow> map_state \<Rightarrow> map_state" where
  \<comment> \<open>the load followed by the filter effect it triggers; markers are drawn from \<open>filteredSlipways\<close>\<close>
  "loadSlipways latLngsSnapshot detailsSnapshot st =
     filterEffect (fetchSlipways latLngsSnapshot detailsSnapshot st)"

section \<open>Image references and file validation (fetchImgService)\<close>

text \<open>An image reference is the pair of its display URL \<open>src\<close> and its identifier.\<close>

type_synonym ImageUrl = "string \<times> string"

definition fetchImgsService :: "string \<Rightarrow> string list option \<Rightarrow> ImageUrl list" where
  \<comment> \<open>the first argument is the bucket name of the environment\<close>
  "fetchImgsService bucket imgIds =
     (case imgIds of
        None \<Rightarrow> []
      | Some ids \<Rightarrow>
          if length ids = 0 then []
          else map (\<lambda>imgId.
                 (''https://s3-eu-west-1.amazonaws.com/'' @ bucket @ ''/WebSitePhotos/'' @ imgId
                    @ ''___Source.jpg'', imgId)) ids)"

definition generateImageId :: "string \<Rightarrow> string \<Rightarrow> string \<Rightarrow> string" where
  \<comment> \<open>\<open>now\<close> is the decimal text of \<open>Date.now()\<close>, \<open>rnd\<close> the six base-36
      digits taken from \<open>Math.random()\<close>\<close>
  "generateImageId slipwayId now rnd =
     ''slipway_'' @ slipwayId @ ''_'' @ now @ ''_'' @ rnd"

record File =
  type' :: string
  size' :: nat

record validation =
  valid :: bool
  error :: "string option"

definition maxSize :: nat where
  "maxSize = 10 * 1024 * 1024"

definition allowedTypes :: "string list" where
  "allowedTypes = [''image/jpeg'', ''image/jpg'', ''image/png'', ''image/webp'']"

definition validateImageFile :: "File \<Rightarrow> validation" where
  "validateImageFile file =
     (if type' file \<notin> set allowedTypes then
        \<lparr> valid = False, error = Some ''Please select a valid image file (JPEG, PNG, or WebP)'' \<rparr>
      else if maxSize < size' file then
        \<lparr> valid = False, error = Some ''Image file size must be less than 10MB'' \<rparr>
      else \<lparr> valid = True, error = None \<rparr>)"

section \<open>Upload hand-off (proxyUploadService)\<close>

text \<open>
  The network is an input of the model. The sign phase either throws (the request fails or
  the body is not JSON), answers with a status that is not ok and an optional \<open>error\<close>
  text, or answers with the signed URL and the optional public URL. The transfer phase ends
  with \<open>onload\<close> and a status, or with \<open>onerror\<close> (a transfer that never ends leaves
  the promise pending and the handler suspended). Every request issued is recorded.
  Progress messages only drive the progress display, which the caller resets before it
  returns; they are left out.
\<close>

datatype signOutcome = SignThrows string | SignNotOk "string option" | SignOk string "string option"

datatype transferOutcome = Onload nat | Onerror

datatype request = SignRequest string string string | PutRequest string string

datatype uploadResult = Resolved "string option" | Rejected string

text \<open>The decimal text of a natural number, as a template literal renders the status.\<close>

function showNat :: "nat \<Rightarrow> string" where
  "showNat n =
     (if n < 10 then [''0123456789'' ! n] else showNat (n div 10) @ [''0123456789'' ! (n mod 10)])"
  by pat_completeness auto
termination
  by (relation "measure (\<lambda>n. n)") auto

declare showNat.simps [simp del]

definition backendUrl :: "bool \<Rightarrow> string" where
  \<comment> \<open>the argument says whether \<open>NODE_ENV\<close> is \<open>production\<close>\<close>
  "backendUrl production =
     (if production then ''/.netlify/functions'' else ''http://localhost:8888/.netlify/functions'')"

definition proxyUploadService ::
  "bool \<Rightarrow> File \<Rightarrow> string \<Rightarrow> signOutcome \<Rightarrow> transferOutcome \<Rightarrow> uploadResult \<times> request list \<times> string list" where
  \<comment> \<open>the result of the promise, the requests issued, and the messages passed to \<open>onError\<close>\<close>
  "proxyUploadService production file newImgId sign transfer =
     (let fileName = ''WebSitePhotos/'' @ newImgId @ ''___Source.jpg'';
          signReq = SignRequest (backendUrl production) fileName (type' file)
      in case sign of
           SignThrows msg \<Rightarrow> (Rejected msg, [signReq], [msg])
         | SignNotOk e \<Rightarrow>
             (Rejected (orElse e ''Failed to get upload URL''), [signReq],
              [orElse e ''Failed to get upload URL''])
         | SignOk signed_request url \<Rightarrow>
             (let reqs = [signReq, PutRequest signed_request (type' file)]
              in case transfer of
                   Onload status \<Rightarrow>
                     if status = 200 then (Resolved url, reqs, [])
                     else (Rejected (''S3 upload failed with status: '' @ showNat status), reqs,
                           [''S3 upload failed with status: '' @ showNat status])
                 | Onerror \<Rightarrow>
                     (Rejected ''Network error during S3 upload'', reqs,
                      [''Network error during S3 upload''])))"

section \<open>Slipway view: photo upload and save\<close>

text \<open>
  Writing an object to the remote store keeps its own properties: the object written for a
  \<open>Slipway\<close> has the lower-case property names of the interface, and an absent optional
  property is not written. (Of what is written the store drops an empty array; no theorem
  reads a property that holds one.)
\<close>

definition optStr :: "string \<Rightarrow> string option \<Rightarrow> (string \<times> jsval) list" where
  "optStr k v = (case v of None \<Rightarrow> [] | Some s \<Rightarrow> [(k, JStr s)])"

definition optStrs :: "string \<Rightarrow> string list option \<Rightarrow> (string \<times> jsval) list" where
  "optStrs k v = (case v of None \<Rightarrow> [] | Some xs \<Rightarrow> [(k, JStrs xs)])"

definition optComments :: "string \<Rightarrow> Comment list option \<Rightarrow> (string \<times> jsval) list" where
  "optComments k v = (case v of None \<Rightarrow> [] | Some cs \<Rightarrow> [(k, JComments cs)])"

definition slipwayObj :: "Slipway \<Rightarrow> jsobj" where
  "slipwayObj s =
     map_of
       ([(''id'', JStr (id' s)), (''name'', JStr (name s)), (''description'', JStr (description s)),
         (''latitude'', JNum (latitude s)), (''longitude'', JNum (longitude s))]
        @ optStrs ''facilities'' (facilities s) @ optStr ''imageUrl'' (imageUrl s)
        @ optStrs ''imgs'' (imgs s) @ optComments ''comments'' (comments s)
        @ optStr ''charges'' (charges s) @ optStr ''nearestPlace'' (nearestPlace s)
        @ optStr ''rampType'' (rampType s) @ optStr ''suitability'' (suitability s)
        @ optStr ''directions'' (directions s) @ optStr ''email'' (email s)
        @ optStr ''lowerArea'' (lowerArea s) @ optStr ''mobilePhoneNumber'' (mobilePhoneNumber s)
        @ optStr ''navigationalHazards'' (navigationalHazards s)
        @ optStr ''rampDescription'' (rampDescription s) @ optStr ''rampLength'' (rampLength s)
        @ optStr ''upperArea'' (upperArea s) @ optStr ''website'' (website s))"

text \<open>
  The state of the view that the upload handler reads and writes, together with what it
  does to the outside: the alerts shown, the requests issued, and the detail table of the
  remote store (\<open>slipwayDetails/<id>\<close>).
\<close>

record view_state =
  slipway :: "Slipway option"
  editedSlipway :: "Slipway option"
  imageUrls :: "ImageUrl list"
  uploadProgress :: nat
  isUploading :: bool
  alerts :: "string list"
  requests :: "request list"
  remoteDetails :: "string \<rightharpoonup> jsobj"

definition uploadFailed :: "view_state \<Rightarrow> view_state" where
  \<comment> \<open>the \<open>catch\<close> block of \<open>handlePhotoUpload\<close>\<close>
  "uploadFailed st =
     st\<lparr> alerts := alerts st @ [''Upload failed. Please try again.''],
         isUploading := False, uploadProgress := 0 \<rparr>"

definition handlePhotoUpload ::
  "bool \<Rightarrow> string \<Rightarrow> string \<Rightarrow> File option \<Rightarrow> string \<Rightarrow> string \<Rightarrow> signOutcome \<Rightarrow> transferOutcome
     \<Rightarrow> bool \<Rightarrow> view_state \<Rightarrow> view_state" where
  \<comment> \<open>\<open>setOk\<close> says whether the write to the remote store succeeds (otherwise it throws)\<close>
  "handlePhotoUpload production bucket slipwayId file now rnd sign transfer setOk st =
     (case file of
        None \<Rightarrow> st
      | Some f \<Rightarrow>
          if \<not> valid (validateImageFile f) then
            st\<lparr> alerts := alerts st @
                  [case validation.error (validateImageFile f) of Some e \<Rightarrow> e | None \<Rightarrow> ''undefined''] \<rparr>
          else
            (let newImageId = generateImageId slipwayId now rnd;
                 run = proxyUploadService production f newImageId sign transfer;
                 st1 = st\<lparr> isUploading := True, uploadProgress := 0,
                           requests := requests st @ fst (snd run),
                           alerts := alerts st @
                             map (\<lambda>e. ''Upload failed. Please try again.'') (snd (snd run)) \<rparr>
             in case fst run of
                  Rejected msg \<Rightarrow> uploadFailed st1
                | Resolved uploadUrl \<Rightarrow>
                    (case slipway st1 of
                       None \<Rightarrow> st1\<lparr> isUploading := False, uploadProgress := 0 \<rparr>
                     | Some sl \<Rightarrow>
                         if \<not> truthy uploadUrl then st1\<lparr> isUploading := False, uploadProgress := 0 \<rparr>
                         else
                           (let updatedImgs = (case imgs sl of Some xs \<Rightarrow> xs | None \<Rightarrow> []) @ [newImageId];
                                updatedSlipway = sl\<lparr> imgs := Some updatedImgs \<rparr>;
                                st2 = st1\<lparr> slipway := Some updatedSlipway,
                                          editedSlipway := Some updatedSlipway,
                                          imageUrls := fetchImgsService bucket (Some updatedImgs) \<rparr>
                            in if setOk then
                                 st2\<lparr> remoteDetails := (remoteDetails st2)(slipwayId \<mapsto> slipwayObj updatedSlipway),
                                      isUploading := False, uploadProgress := 0 \<rparr>
                               else uploadFailed st2))))"

definition handleFacilitiesChange :: "string \<Rightarrow> string list" where
  \<comment> \<open>the list that \<open>handleFacilitiesChange\<close> stores in the edited entity\<close>
  "handleFacilitiesChange facilitiesText =
     filter (\<lambda>f. f \<noteq> []) (map trim (split '','' facilitiesText))"

definition updatedDetails :: "Slipway \<Rightarrow> jsobj" where
  \<comment> \<open>the object \<open>handleSave\<close> passes to \<open>set\<close> for \<open>slipwayDetails/<id>\<close>; a property
      whose value is \<open>undefined\<close> is shown as absent\<close>
  "updatedDetails edited =
     map_of
       ([(''Name'', JStr (name edited)),
         (''Description'', JStr (description edited)),
         (''RampDescription'', JStr (orElse (rampDescription edited) (description edited))),
         (''Facilities'', JStr (case facilities edited of None \<Rightarrow> [] | Some fs \<Rightarrow> join '', '' fs))]
        @ optStr ''Charges'' (charges edited)
        @ optStr ''NearestPlace'' (nearestPlace edited)
        @ optStr ''RampType'' (rampType edited)
        @ optStr ''Suitability'' (suitability edited)
        @ optStr ''Directions'' (directions edited)
        @ optStr ''Email'' (email edited)
        @ optStr ''LowerArea'' (lowerArea edited)
        @ optStr ''MobilePhoneNumber'' (mobilePhoneNumber edited)
        @ optStr ''NavigationalHazards'' (navigationalHazards edited)
        @ optStr ''RampLength'' (rampLength edited)
        @ optStr ''UpperArea'' (upperArea edited)
        @ optStr ''Website'' (website edited))"

definition initialViewState :: view_state where
  \<comment> \<open>the initial values of the state hooks; nothing alerted, requested or stored yet\<close>
  "initialViewState =
     \<lparr> slipway = None, editedSlipway = None, imageUrls = [], uploadProgress = 0,
       isUploading = False, alerts = [], requests = [], remoteDetails = Map.empty \<rparr>"

section \<open>Properties of the join\<close>

text \<open>
  A detail record makes the join throw when its \<open>Facilities\<close> is a truthy value that is
  not a string. Where no detail record does, no step throws, and the loop appends, for each
  key in turn, what the step for that key pushes.
\<close>

lemma facilitiesOf_inheritedMember: "facilitiesOf inheritedMember = Inr []"
  by (simp add: facilitiesOf_def inheritedMember_def)

lemma detailsAt_no_throw:
  assumes good: "\<forall>d \<in> snd ` set D. facilitiesOf d \<noteq> Inl TypeError"
    and at: "detailsAt D k = Some d"
  shows "facilitiesOf d \<noteq> Inl TypeError"
proof (cases "map_of D k")
  case None
  with at have "d = inheritedMember"
    by (simp add: detailsAt_def split: if_splits)
  then show ?thesis by (simp add: facilitiesOf_inheritedMember)
next
  case (Some d')
  with at have "d' = d" by (simp add: detailsAt_def)
  with Some have "(k, d) \<in> set D" by (simp add: map_of_SomeD)
  then have "d \<in> snd ` set D" by force
  with good show ?thesis by blast
qed

lemma joinStep_no_throw:
  assumes good: "\<forall>d \<in> snd ` set D. facilitiesOf d \<noteq> Inl TypeError"
  shows "joinStep L D k = Inr (pushed L D k)"
proof (cases "joinStep L D k")
  case (Inr xs)
  then show ?thesis by simp
next
  case (Inl e)
  then obtain coords d where "detailsAt D k = Some d" and "facilitiesOf d = Inl e"
    by (auto simp: joinStep_def split: option.splits if_splits sum.splits)
  moreover have "e = TypeError" by (cases e) simp
  ultimately show ?thesis
    using detailsAt_no_throw [OF good] by blast
qed

lemma joinLoop_concat:
  assumes good: "\<forall>d \<in> snd ` set D. facilitiesOf d \<noteq> Inl TypeError"
  shows "joinLoop L D ks acc = Inr (acc @ concat (map (pushed L D) ks))"
proof (induction ks arbitrary: acc)
  case Nil
  show ?case by simp
next
  case (Cons k ks)
  have "joinLoop L D (k # ks) acc = joinLoop L D ks (acc @ pushed L D k)"
    by (subst joinLoop.simps, subst joinStep_no_throw [OF good]) simp
  then show ?case by (simp add: Cons.IH)
qed

lemma joinSlipways_concat:
  assumes good: "\<forall>d \<in> snd ` set D. facilitiesOf d \<noteq> Inl TypeError"
  shows "joinSlipways L D = Inr (concat (map (pushed L D) (map fst L)))"
  unfolding joinSlipways_def by (subst joinLoop_concat [OF good]) simp

lemma id_mkSlipway [simp]: "id' (mkSlipway k c d) = k"
  by (simp add: mkSlipway_def)

lemma pushed_ids: "s \<in> set (pushed L D k) \<Longrightarrow> id' s = k"
  by (auto simp: joinStep_def split: option.splits if_splits sum.splits)

lemma filter_pushed:
  "filter (\<lambda>s. id' s = i) (pushed L D k) = (if k = i then pushed L D k else [])"
proof (cases "k = i")
  case True
  then have "\<forall>s \<in> set (pushed L D k). id' s = i"
    using pushed_ids by blast
  with True show ?thesis by simp
next
  case False
  then have "\<forall>s \<in> set (pushed L D k). id' s \<noteq> i"
    using pushed_ids by blast
  with False show ?thesis by (simp add: filter_empty_conv)
qed

lemma filter_concat_pushed:
  "distinct ks \<Longrightarrow>
   filter (\<lambda>s. id' s = i) (concat (map (pushed L D) ks)) = (if i \<in> set ks then pushed L D i else [])"
proof (induction ks)
  case Nil
  then show ?case by simp
next
  case (Cons k ks)
  then show ?case
    by (simp only: list.map concat.simps filter_append filter_pushed distinct.simps)
       (auto split: option.splits)
qed

lemma pushed_absent: "map_of L i = None \<Longrightarrow> pushed L D i = []"
  by (simp add: joinStep_def)

lemma filter_joined:
  assumes d: "distinct (map fst L)"
  shows "filter (\<lambda>s. id' s = i) (concat (map (pushed L D) (map fst L))) = pushed L D i"
proof (cases "i \<in> set (map fst L)")
  case True
  with filter_concat_pushed [OF d, of i L D] show ?thesis by simp
next
  case False
  then have "map_of L i = None"
    by (simp add: map_of_eq_None_iff)
  then have "pushed L D i = []" by (rule pushed_absent)
  with False filter_concat_pushed [OF d, of i L D] show ?thesis by simp
qed

lemma pushed_both:
  assumes "map_of L i = Some coords" and "map_of D i = Some details" and "2 \<le> length coords"
    and "facilitiesOf details \<noteq> Inl TypeError"
  shows "pushed L D i = [mkSlipway i coords details]"
proof -
  from assms(4) obtain fs where "facilitiesOf details = Inr fs"
    by (cases "facilitiesOf details") (auto, metis jsError.exhaust)
  with assms(1-3) show ?thesis
    by (simp add: joinStep_def detailsAt_def)
qed





section \<open>Properties of loading and filtering\<close>

lemmas parse_defs =
  parseFloat_def isWhiteSpace_def isDigit_def digitsVal_def scale10_def exponentPart_def Let_def

text \<open>
  C3, as stated, fails. The strings \<open>abc\<close> and \<open>def\<close> do not parse as numbers, yet
  the id that carries them is in the set the markers are drawn from: the join calls
  \<open>parseFloat\<close> and never looks at the result.
\<close>

theorem unparsed_coordinates_counterexample:
  "map id' (filteredSlipways (loadSlipways (Snapshot (Some [(''a'', [''abc'', ''def''])]))
       (Snapshot (Some [(''a'', [''Name'' \<mapsto> JStr ''Harbour''])])) initialMapState)) = [''a'']
   \<and> parseFloat ''abc'' = NaN \<and> parseFloat ''def'' = NaN"
  by (simp add: loadSlipways_def filterEffect_def fetchSlipways_def initialMapState_def
      filterSlipways_def joinSlipways_def joinStep_def detailsAt_def facilitiesOf_def parse_defs)

text \<open>
  C3, amended. A coordinate string that does not parse as a number neither raises an error
  nor excludes the id. Let an id have an entry in both tables and at least two coordinate
  strings, of which one does not parse, and let no detail record hold a truthy
  \<open>Facilities\<close> that is not a string (the one thing that makes the join throw). Then the
  load sets no error and does not use the fallback, and the entity set holds exactly one
  entity with that id, whose latitude and longitude are the results of \<open>parseFloat\<close>,
  NaN included. With no filter active the same holds of the filtered set.
\<close>

theorem unparsed_coordinates_kept:
  assumes "distinct (map fst latLngsData)"
    and "\<forall>d \<in> snd ` set detailsData. facilitiesOf d \<noteq> Inl TypeError"
    and "map_of latLngsData i = Some coords" and "map_of detailsData i = Some details"
    and "2 \<le> length coords"
    and "parseFloat (coords ! 0) = NaN \<or> parseFloat (coords ! 1) = NaN"
  shows "map_state.error (loadSlipways (Snapshot (Some latLngsData)) (Snapshot (Some detailsData)) st) = None
    \<and> map (\<lambda>s. (latitude s, longitude s))
         (filter (\<lambda>s. id' s = i)
           (slipways (loadSlipways (Snapshot (Some latLngsData)) (Snapshot (Some detailsData)) st)))
       = [(parseFloat (coords ! 0), parseFloat (coords ! 1))]
    \<and> (rampLengthFilter st = [] \<and> suitabilityFilter st = [] \<longrightarrow>
         map (\<lambda>s. (latitude s, longitude s))
           (filter (\<lambda>s. id' s = i)
             (filteredSlipways (loadSlipways (Snapshot (Some latLngsData)) (Snapshot (Some detailsData)) st)))
         = [(parseFloat (coords ! 0), parseFloat (coords ! 1))])
    \<and> (\<exists>s \<in> set (slipways (loadSlipways (Snapshot (Some latLngsData)) (Snapshot (Some detailsData)) st)).
          id' s = i \<and> (latitude s = NaN \<or> longitude s = NaN))"
proof -
  let ?xs = "concat (map (pushed latLngsData detailsData) (map fst latLngsData))"
  let ?st = "loadSlipways (Snapshot (Some latLngsData)) (Snapshot (Some detailsData)) st"
  let ?e = "mkSlipway i coords details"
  have j: "joinSlipways latLngsData detailsData = Inr ?xs"
    by (rule joinSlipways_concat [OF assms(2)])
  from assms(4) have "(i, details) \<in> set detailsData" by (simp add: map_of_SomeD)
  then have "details \<in> snd ` set detailsData" by force
  with assms(2) have "facilitiesOf details \<noteq> Inl TypeError" by blast
  with assms(3-5) have p: "pushed latLngsData detailsData i = [?e]"
    by (intro pushed_both) simp_all
  have f: "filter (\<lambda>s. id' s = i) ?xs = [?e]"
    unfolding filter_joined [OF assms(1)] by (rule p)
  have sl: "slipways ?st = ?xs" and er: "map_state.error ?st = None"
    by (simp_all add: loadSlipways_def filterEffect_def fetchSlipways_def j)
  have fl: "filteredSlipways ?st = ?xs" if "rampLengthFilter st = [] \<and> suitabilityFilter st = []"
    using that by (simp add: loadSlipways_def filterEffect_def fetchSlipways_def j filterSlipways_def)
  have ll: "latitude ?e = parseFloat (coords ! 0)" "longitude ?e = parseFloat (coords ! 1)"
    by (simp_all add: mkSlipway_def)
  have "?e \<in> set (filter (\<lambda>s. id' s = i) ?xs)"
    unfolding f by simp
  then have mem: "?e \<in> set ?xs" by simp
  from assms(6) ll have nan: "latitude ?e = NaN \<or> longitude ?e = NaN" by simp
  have ex: "\<exists>s \<in> set (slipways ?st). id' s = i \<and> (latitude s = NaN \<or> longitude s = NaN)"
    unfolding sl using mem nan by (intro bexI [of _ ?e]) simp_all
  from er sl fl f ll ex show ?thesis by simp
qed

theorem unparsed_coordinates_kept_witness:
  "parseFloat ([''abc'', ''def''] ! 0) = NaN
   \<and> map_state.error (loadSlipways (Snapshot (Some [(''a'', [''abc'', ''def''])]))
         (Snapshot (Some [(''a'', [''Name'' \<mapsto> JStr ''Harbour''])])) initialMapState) = None
   \<and> map (\<lambda>s. (latitude s, longitude s))
        (filter (\<lambda>s. id' s = ''a'')
          (filteredSlipways (loadSlipways (Snapshot (Some [(''a'', [''abc'', ''def''])]))
             (Snapshot (Some [(''a'', [''Name'' \<mapsto> JStr ''Harbour''])])) initialMapState)))
      = [(NaN, NaN)]"
proof -
  let ?L = "[(''a'', [''abc'', ''def''])]"
  let ?d = "[''Name'' \<mapsto> JStr ''Harbour'']"
  let ?D = "[(''a'', ?d)]"
  have nan: "parseFloat ([''abc'', ''def''] ! 0) = NaN" "parseFloat ([''abc'', ''def''] ! 1) = NaN"
    by (simp_all add: parse_defs)
  have flt: "rampLengthFilter initialMapState = [] \<and> suitabilityFilter initialMapState = []"
    by (simp add: initialMapState_def)
  have d: "distinct (map fst ?L)" by simp
  have g: "\<forall>d \<in> snd ` set ?D. facilitiesOf d \<noteq> Inl TypeError"
    by (simp add: facilitiesOf_def)
  from nan(1) have either: "parseFloat ([''abc'', ''def''] ! 0) = NaN \<or> parseFloat ([''abc'', ''def''] ! 1) = NaN" ..
  note th = unparsed_coordinates_kept [OF d g _ _ _ either, of "''a''" ?d initialMapState]
  have l: "map_of ?L ''a'' = Some [''abc'', ''def'']" "map_of ?D ''a'' = Some ?d" "2 \<le> length [''abc'', ''def'']"
    by simp_all
  from th [OF l] flt nan show ?thesis by simp
qed

text \<open>
  C8. A remote table without entries is an absent table, so its snapshot does not exist.
  If either table is so, the load sets the error, the entity set is the fallback set, and
  with no filter active the filtered set is the fallback set too: three entities with the
  ids 1, 2 and 3.
\<close>

theorem empty_table_falls_back:
  assumes "latLngsTable = [] \<or> detailsTable = []"
    and "rampLengthFilter st = []" and "suitabilityFilter st = []"
  shows "filteredSlipways (loadSlipways (snapshotOf latLngsTable) (snapshotOf detailsTable) st) = fallbackSlipways
    \<and> slipways (loadSlipways (snapshotOf latLngsTable) (snapshotOf detailsTable) st) = fallbackSlipways
    \<and> map_state.error (loadSlipways (snapshotOf latLngsTable) (snapshotOf detailsTable) st)
         = Some ''Failed to load slipway data''
    \<and> map id' fallbackSlipways = [''1'', ''2'', ''3'']"
  using assms
  by (auto simp: loadSlipways_def filterEffect_def fetchSlipways_def filterSlipways_def
      snapshotOf_def loadFailed_def fallbackSlipways_def sampleSlipway_def)

theorem empty_table_falls_back_witness:
  "rampLengthFilter initialMapState = [] \<and> suitabilityFilter initialMapState = []
   \<and> filteredSlipways (loadSlipways (snapshotOf [(''a'', [''51.5'', ''-0.1''])]) (snapshotOf [])
        initialMapState) = fallbackSlipways
   \<and> map_state.error (loadSlipways (snapshotOf [(''a'', [''51.5'', ''-0.1''])]) (snapshotOf [])
        initialMapState) = Some ''Failed to load slipway data''
   \<and> length fallbackSlipways = 3"
proof -
  have flt: "rampLengthFilter initialMapState = []" "suitabilityFilter initialMapState = []"
    by (simp_all add: initialMapState_def)
  have e: "[(''a'', [''51.5'', ''-0.1''])] = [] \<or> ([] :: slipwayDetails) = []" by simp
  have "length (map id' fallbackSlipways) = 3"
    using empty_table_falls_back [OF e flt] by simp
  then have "length fallbackSlipways = 3" by simp
  with empty_table_falls_back [OF e flt] flt show ?thesis by simp
qed

text \<open>
  C10. No entity of the fallback set has a suitability or a ramp length, and as soon as
  one of the two filters is active the filtered fallback set is empty.
\<close>

theorem fallback_filtered_out:
  assumes "rampFilter \<noteq> [] \<or> suitFilter \<noteq> []"
  shows "filterSlipways rampFilter suitFilter fallbackSlipways = []
    \<and> (\<forall>s \<in> set fallbackSlipways. suitability s = None \<and> rampLength s = None)"
  using assms
  by (auto simp: filterSlipways_def fallbackSlipways_def sampleSlipway_def
      rampLengthPred_def suitabilityPred_def truthy_def)

theorem fallback_filtered_out_witness:
  "''Portable Only'' \<noteq> [] \<and> filterSlipways [] ''Portable Only'' fallbackSlipways = []
   \<and> filterSlipways ''10m'' [] fallbackSlipways = []
   \<and> suitability (fallbackSlipways ! 0) = None"
proof -
  have a: "([] :: string) \<noteq> [] \<or> ''Portable Only'' \<noteq> []" by simp
  have b: "''10m'' \<noteq> [] \<or> ([] :: string) \<noteq> []" by simp
  have m: "fallbackSlipways ! 0 \<in> set fallbackSlipways"
    by (simp add: fallbackSlipways_def)
  from fallback_filtered_out [OF a] fallback_filtered_out [OF b] m show ?thesis by simp
qed

text \<open>
  C4. Whatever the ramp-length filter, the suitability filter "Small trailer can be pushed"
  admits, among the entities that pass the ramp-length filter, exactly those whose
  suitability is "Small trailer can be pushed" or "Large trailer needs a car"; the filter
  "Large trailer needs a car" admits exactly those whose suitability is that value. With
  no ramp-length filter every entity passes the first stage.
\<close>

theorem suitability_hierarchy:
  "(s \<in> set (filterSlipways rampFilter ''Small trailer can be pushed'' xs) \<longleftrightarrow>
      s \<in> set (filterSlipways rampFilter [] xs)
      \<and> (suitability s = Some ''Small trailer can be pushed''
         \<or> suitability s = Some ''Large trailer needs a car''))
   \<and> (s \<in> set (filterSlipways rampFilter ''Large trailer needs a car'' xs) \<longleftrightarrow>
      s \<in> set (filterSlipways rampFilter [] xs)
      \<and> suitability s = Some ''Large trailer needs a car'')
   \<and> filterSlipways [] [] xs = xs"
  by (auto simp: filterSlipways_def suitabilityPred_def truthy_def)

text \<open>
  C2, as stated, fails. The first fallback entity has no suitability value, and the filter
  "Portable Only" does not admit it: the test for a missing suitability comes before the
  test for the tier.
\<close>

theorem portable_only_counterexample:
  "suitability (sampleSlipway ''1'' ''Sample Slipway 1'' ''A beautiful slipway with great facilities''
         (Num (51505 / 1000)) (Num (- (9 / 100)))) = None
   \<and> filterSlipways [] ''Portable Only''
       [sampleSlipway ''1'' ''Sample Slipway 1'' ''A beautiful slipway with great facilities''
         (Num (51505 / 1000)) (Num (- (9 / 100)))] = []"
  by (simp add: filterSlipways_def sampleSlipway_def suitabilityPred_def truthy_def)

text \<open>
  C2, amended. The filter "Portable Only" admits exactly the entities that have a
  non-empty suitability value, whatever the value; an entity without one is excluded by
  every active suitability filter, "Portable Only" included. An entity built by the join
  always has a value, since a missing \<open>Suitability\<close> is read as "Unknown".
\<close>

theorem portable_only_admits_valued:
  "(s \<in> set (filterSlipways rampFilter ''Portable Only'' xs) \<longleftrightarrow>
      s \<in> set (filterSlipways rampFilter [] xs) \<and> truthy (suitability s))
   \<and> (suitFilter \<noteq> [] \<and> \<not> truthy (suitability s)
        \<longrightarrow> s \<notin> set (filterSlipways rampFilter suitFilter xs))
   \<and> truthy (suitability (mkSlipway slipwayId coords details))"
  by (auto simp: filterSlipways_def suitabilityPred_def mkSlipway_def truthy_def orElse_def split: option.splits)

theorem portable_only_admits_valued_witness:
  "mkSlipway ''a'' [''51.5'', ''-0.1''] Map.empty
     \<in> set (filterSlipways [] ''Portable Only'' [mkSlipway ''a'' [''51.5'', ''-0.1''] Map.empty])
   \<and> suitability (mkSlipway ''a'' [''51.5'', ''-0.1''] Map.empty) = Some ''Unknown''
   \<and> \<not> truthy (suitability (hd fallbackSlipways))
   \<and> hd fallbackSlipways \<notin> set (filterSlipways [] ''Portable Only'' fallbackSlipways)"
proof -
  let ?e = "mkSlipway ''a'' [''51.5'', ''-0.1''] Map.empty"
  have nf: "filterSlipways [] [] [?e] = [?e]" by (simp add: filterSlipways_def)
  have u: "suitability ?e = Some ''Unknown''"
    by (simp add: mkSlipway_def strField_def orElse_def)
  have f: "''Portable Only'' \<noteq> [] \<and> \<not> truthy (suitability (hd fallbackSlipways))"
    by (simp add: fallbackSlipways_def sampleSlipway_def truthy_def)
  from portable_only_admits_valued [of ?e "[]" "[?e]" _ "''a''" "[''51.5'', ''-0.1'']" Map.empty] nf
  have a: "?e \<in> set (filterSlipways [] ''Portable Only'' [?e])" by simp
  from portable_only_admits_valued [of "hd fallbackSlipways" "[]" fallbackSlipways "''Portable Only''"] f
  have b: "hd fallbackSlipways \<notin> set (filterSlipways [] ''Portable Only'' fallbackSlipways)" by blast
  from a u f b show ?thesis by blast
qed

section \<open>Properties of the facility list\<close>

lemma last_dropWhile_nonempty:
  "dropWhile P ys \<noteq> [] \<Longrightarrow> last (dropWhile P ys) = last ys"
  by (induction ys) (auto split: if_splits)

lemma dropWhile_self: "xs = [] \<or> \<not> P (hd xs) \<Longrightarrow> dropWhile P xs = xs"
  by (cases xs) auto

lemma trim_idem: "trim (trim x) = trim x"
proof -
  let ?P = isWhiteSpace
  let ?a = "dropWhile ?P x"
  let ?b = "rev (dropWhile ?P (rev ?a))"
  have front: "dropWhile ?P ?b = ?b"
  proof (cases "dropWhile ?P (rev ?a) = []")
    case True
    show ?thesis unfolding True by simp
  next
    case False
    have ne: "?a \<noteq> []"
    proof
      assume "?a = []"
      then have "dropWhile ?P (rev ?a) = []" by (simp only: rev.simps dropWhile.simps)
      with False show False ..
    qed
    have "hd ?b = last (dropWhile ?P (rev ?a))"
      using False by (simp add: hd_rev)
    also have "\<dots> = last (rev ?a)"
      using False by (rule last_dropWhile_nonempty)
    also have "\<dots> = hd ?a"
      using ne by (simp add: last_rev)
    finally have "\<not> ?P (hd ?b)"
      using ne hd_dropWhile [of ?P x] by simp
    then show ?thesis by (intro dropWhile_self) simp
  qed
  have "trim ?b = rev (dropWhile ?P (rev ?b))"
    unfolding trim_def front ..
  also have "\<dots> = ?b" by simp
  finally show ?thesis by (simp add: trim_def)
qed

lemma parseFacilities_entries:
  "f \<in> set (parseFacilities details) \<Longrightarrow> f \<noteq> [] \<and> trim f \<noteq> []"
  by (auto simp: parseFacilities_def facilitiesOf_def trim_def
      split: if_splits option.splits jsval.splits)

lemma handleFacilitiesChange_entries:
  "f \<in> set (handleFacilitiesChange facilitiesText) \<Longrightarrow> f \<noteq> [] \<and> trim f \<noteq> []"
  by (auto simp: handleFacilitiesChange_def trim_idem)

lemma updatedDetails_Facilities:
  "updatedDetails edited ''Facilities'' =
     Some (JStr (case facilities edited of None \<Rightarrow> [] | Some fs \<Rightarrow> join '', '' fs))"
  by (simp add: updatedDetails_def)

text \<open>
  C9. Read from the detail record, the string "Parking, Toilets, , Cafe" (its last letter
  the e with acute accent) becomes the list Parking, Toilets, Cafe, which is the facility
  list of the joined entity. On save the
  list is written as one string, its entries joined by comma and space. No entry of a list
  read from a record, or of a list entered in the editor, is empty or made of white space
  only.
\<close>

theorem facilities_parse_and_flatten:
  "parseFacilities [''Facilities'' \<mapsto> JStr (''Parking, Toilets, , Caf'' @ [CHR 0xE9])]
     = [''Parking'', ''Toilets'', ''Caf'' @ [CHR 0xE9]]
   \<and> facilities (mkSlipway slipwayId coords details) = Some (parseFacilities details)
   \<and> (facilities edited = Some fs \<longrightarrow> updatedDetails edited ''Facilities'' = Some (JStr (join '', '' fs)))
   \<and> join '', '' [''Parking'', ''Toilets'', ''Caf'' @ [CHR 0xE9]] = ''Parking, Toilets, Caf'' @ [CHR 0xE9]
   \<and> (\<forall>f \<in> set (parseFacilities details). f \<noteq> [] \<and> trim f \<noteq> [])
   \<and> (\<forall>f \<in> set (handleFacilitiesChange facilitiesText). f \<noteq> [] \<and> trim f \<noteq> [])"
proof -
  have 1: "parseFacilities [''Facilities'' \<mapsto> JStr (''Parking, Toilets, , Caf'' @ [CHR 0xE9])]
     = [''Parking'', ''Toilets'', ''Caf'' @ [CHR 0xE9]]"
    by (simp add: parseFacilities_def facilitiesOf_def split_def trim_def isWhiteSpace_def)
  have 2: "facilities (mkSlipway slipwayId coords details) = Some (parseFacilities details)"
    by (simp add: mkSlipway_def)
  have 3: "facilities edited = Some fs \<longrightarrow> updatedDetails edited ''Facilities'' = Some (JStr (join '', '' fs))"
    by (simp add: updatedDetails_Facilities)
  have 4: "join '', '' [''Parking'', ''Toilets'', ''Caf'' @ [CHR 0xE9]] = ''Parking, Toilets, Caf'' @ [CHR 0xE9]"
    by simp
  from 1 2 3 4 parseFacilities_entries handleFacilitiesChange_entries show ?thesis
    by blast
qed

theorem facilities_parse_and_flatten_witness:
  "''Parking'' \<in> set (parseFacilities [''Facilities'' \<mapsto> JStr (''Parking, Toilets, , Caf'' @ [CHR 0xE9])])
   \<and> trim ''Parking'' \<noteq> []
   \<and> handleFacilitiesChange ''Parking,  , Toilets,'' = [''Parking'', ''Toilets'']
   \<and> trim ''Toilets'' \<noteq> []
   \<and> updatedDetails
        (mkSlipway ''s1'' [''50.1'', ''-1.2''] [''Facilities'' \<mapsto> JStr (''Parking, Toilets, , Caf'' @ [CHR 0xE9])])
        ''Facilities''
      = Some (JStr (''Parking, Toilets, Caf'' @ [CHR 0xE9]))"
proof -
  let ?d = "[''Facilities'' \<mapsto> JStr (''Parking, Toilets, , Caf'' @ [CHR 0xE9])]"
  let ?e = "mkSlipway ''s1'' [''50.1'', ''-1.2''] ?d"
  note th = facilities_parse_and_flatten [where details = ?d and slipwayId = "''s1''"
      and coords = "[''50.1'', ''-1.2'']" and edited = ?e
      and fs = "[''Parking'', ''Toilets'', ''Caf'' @ [CHR 0xE9]]"
      and facilitiesText = "''Parking,  , Toilets,''"]
  from th have p: "parseFacilities ?d = [''Parking'', ''Toilets'', ''Caf'' @ [CHR 0xE9]]" by blast
  then have m: "''Parking'' \<in> set (parseFacilities ?d)" by simp
  with th have 1: "trim ''Parking'' \<noteq> []" by blast
  have h: "handleFacilitiesChange ''Parking,  , Toilets,'' = [''Parking'', ''Toilets'']"
    by (simp add: handleFacilitiesChange_def split_def trim_def isWhiteSpace_def)
  then have "''Toilets'' \<in> set (handleFacilitiesChange ''Parking,  , Toilets,'')" by simp
  with th have 2: "trim ''Toilets'' \<noteq> []" by blast
  from th p have "facilities ?e = Some [''Parking'', ''Toilets'', ''Caf'' @ [CHR 0xE9]]" by simp
  with th have 3: "updatedDetails ?e ''Facilities''
      = Some (JStr (join '', '' [''Parking'', ''Toilets'', ''Caf'' @ [CHR 0xE9]]))"
    by blast
  from th have 4: "join '', '' [''Parking'', ''Toilets'', ''Caf'' @ [CHR 0xE9]] = ''Parking, Toilets, Caf'' @ [CHR 0xE9]"
    by blast
  from m 1 h 2 3 4 show ?thesis by simp
qed

section \<open>Properties of the upload\<close>

text \<open>
  C7. A file whose type is not in the allow-list, or whose size is above 10 MiB, is
  invalid, with the message of the first check that fails; the handler then only shows
  that message: it issues no request and changes nothing else. A file of an allowed type
  and of at most 10 MiB is valid.
\<close>

theorem invalid_file_rejected_before_requests:
  "(type' f \<notin> set allowedTypes \<or> maxSize < size' f \<longrightarrow>
      \<not> valid (validateImageFile f)
      \<and> validation.error (validateImageFile f)
          = Some (if type' f \<notin> set allowedTypes
                  then ''Please select a valid image file (JPEG, PNG, or WebP)''
                  else ''Image file size must be less than 10MB'')
      \<and> requests (handlePhotoUpload production bucket slipwayId (Some f) now rnd sign transfer setOk st)
          = requests st
      \<and> handlePhotoUpload production bucket slipwayId (Some f) now rnd sign transfer setOk st
          = st\<lparr> alerts := alerts st @
                [if type' f \<notin> set allowedTypes
                 then ''Please select a valid image file (JPEG, PNG, or WebP)''
                 else ''Image file size must be less than 10MB''] \<rparr>)
   \<and> (type' f \<in> set allowedTypes \<and> size' f \<le> maxSize \<longrightarrow>
        validateImageFile f = \<lparr> valid = True, error = None \<rparr>)
   \<and> maxSize = 10485760
   \<and> set allowedTypes = {''image/jpeg'', ''image/jpg'', ''image/png'', ''image/webp''}"
  by (auto simp: validateImageFile_def handlePhotoUpload_def maxSize_def allowedTypes_def)

theorem invalid_file_rejected_before_requests_witness:
  "type' \<lparr> type' = ''application/pdf'', size' = 10 \<rparr> \<notin> set allowedTypes
   \<and> requests (handlePhotoUpload True ''photos'' ''s1'' (Some \<lparr> type' = ''application/pdf'', size' = 10 \<rparr>)
         ''1700000000000'' ''abc123'' (SignOk ''https://signed'' (Some ''https://public'')) (Onload 200) True
         initialViewState) = []
   \<and> alerts (handlePhotoUpload True ''photos'' ''s1'' (Some \<lparr> type' = ''application/pdf'', size' = 10 \<rparr>)
         ''1700000000000'' ''abc123'' (SignOk ''https://signed'' (Some ''https://public'')) (Onload 200) True
         initialViewState) = [''Please select a valid image file (JPEG, PNG, or WebP)'']
   \<and> maxSize < size' \<lparr> type' = ''image/png'', size' = 10485761 \<rparr>
   \<and> validation.error (validateImageFile \<lparr> type' = ''image/png'', size' = 10485761 \<rparr>)
        = Some ''Image file size must be less than 10MB''
   \<and> validateImageFile \<lparr> type' = ''image/png'', size' = 10485760 \<rparr> = \<lparr> valid = True, error = None \<rparr>"
proof -
  let ?pdf = "\<lparr> type' = ''application/pdf'', size' = 10 \<rparr>"
  let ?big = "\<lparr> type' = ''image/png'', size' = 10485761 \<rparr>"
  let ?ok = "\<lparr> type' = ''image/png'', size' = 10485760 \<rparr>"
  have t: "type' ?pdf \<notin> set allowedTypes" by (simp add: allowedTypes_def)
  have b: "type' ?big \<in> set allowedTypes" "maxSize < size' ?big"
    by (simp_all add: allowedTypes_def maxSize_def)
  have k: "type' ?ok \<in> set allowedTypes \<and> size' ?ok \<le> maxSize"
    by (simp add: allowedTypes_def maxSize_def)
  have i: "requests initialViewState = []" "alerts initialViewState = []"
    by (simp_all add: initialViewState_def)
  note pdf = invalid_file_rejected_before_requests [where f = ?pdf and production = True
      and bucket = "''photos''" and slipwayId = "''s1''" and now = "''1700000000000''" and rnd = "''abc123''"
      and sign = "SignOk ''https://signed'' (Some ''https://public'')" and transfer = "Onload 200"
      and setOk = True and st = initialViewState]
  note big = invalid_file_rejected_before_requests [where f = ?big and st = initialViewState]
  note ok = invalid_file_rejected_before_requests [where f = ?ok and st = initialViewState]
  from pdf t i have 1: "requests (handlePhotoUpload True ''photos'' ''s1'' (Some ?pdf)
         ''1700000000000'' ''abc123'' (SignOk ''https://signed'' (Some ''https://public'')) (Onload 200) True
         initialViewState) = []"
    by simp
  from pdf t i have 2: "alerts (handlePhotoUpload True ''photos'' ''s1'' (Some ?pdf)
         ''1700000000000'' ''abc123'' (SignOk ''https://signed'' (Some ''https://public'')) (Onload 200) True
         initialViewState) = [''Please select a valid image file (JPEG, PNG, or WebP)'']"
    by simp
  from big b have 3: "validation.error (validateImageFile ?big) = Some ''Image file size must be less than 10MB''"
    by simp
  from ok k have 4: "validateImageFile ?ok = \<lparr> valid = True, error = None \<rparr>"
    by blast
  from t 1 2 b(2) 3 4 show ?thesis by blast
qed

lemma proxyUpload_rejects:
  "transfer \<noteq> Onload 200 \<Longrightarrow> \<exists>msg. fst (proxyUploadService production f newImgId sign transfer) = Rejected msg"
  by (cases sign; cases transfer) (auto simp: proxyUploadService_def Let_def)

lemma rejected_leaves_entity:
  "fst (proxyUploadService production f (generateImageId slipwayId now rnd) sign transfer) = Rejected msg \<Longrightarrow>
   slipway (handlePhotoUpload production bucket slipwayId (Some f) now rnd sign transfer setOk st) = slipway st
   \<and> editedSlipway (handlePhotoUpload production bucket slipwayId (Some f) now rnd sign transfer setOk st) = editedSlipway st
   \<and> remoteDetails (handlePhotoUpload production bucket slipwayId (Some f) now rnd sign transfer setOk st) = remoteDetails st"
  by (simp add: handlePhotoUpload_def Let_def uploadFailed_def)

text \<open>
  C5. If the transfer ends with \<open>onerror\<close> or with a status other than 200, the promise
  of the upload rejects; and whenever the promise rejects, the entity of the view, the
  edited entity and the detail table of the remote store are what they were before: no
  image identifier is added anywhere.
\<close>

theorem failed_transfer_leaves_images:
  "(transfer = Onerror \<or> (\<exists>status. transfer = Onload status \<and> status \<noteq> 200) \<longrightarrow>
      (\<exists>msg. fst (proxyUploadService production f (generateImageId slipwayId now rnd) sign transfer)
            = Rejected msg))
   \<and> ((\<exists>msg. fst (proxyUploadService production f (generateImageId slipwayId now rnd) sign transfer)
            = Rejected msg) \<longrightarrow>
      slipway (handlePhotoUpload production bucket slipwayId (Some f) now rnd sign transfer setOk st) = slipway st
      \<and> editedSlipway (handlePhotoUpload production bucket slipwayId (Some f) now rnd sign transfer setOk st)
          = editedSlipway st
      \<and> remoteDetails (handlePhotoUpload production bucket slipwayId (Some f) now rnd sign transfer setOk st)
          = remoteDetails st)"
proof (intro conjI impI)
  assume "transfer = Onerror \<or> (\<exists>status. transfer = Onload status \<and> status \<noteq> 200)"
  then have "transfer \<noteq> Onload 200" by auto
  then show "\<exists>msg. fst (proxyUploadService production f (generateImageId slipwayId now rnd) sign transfer)
            = Rejected msg"
    by (rule proxyUpload_rejects)
next
  assume r: "\<exists>msg. fst (proxyUploadService production f (generateImageId slipwayId now rnd) sign transfer)
            = Rejected msg"
  then obtain msg where m: "fst (proxyUploadService production f (generateImageId slipwayId now rnd) sign transfer)
            = Rejected msg" ..
  note u = rejected_leaves_entity [OF m, of bucket setOk st]
  from u show "slipway (handlePhotoUpload production bucket slipwayId (Some f) now rnd sign transfer setOk st) = slipway st"
    by blast
  from u show "editedSlipway (handlePhotoUpload production bucket slipwayId (Some f) now rnd sign transfer setOk st)
          = editedSlipway st"
    by blast
  from u show "remoteDetails (handlePhotoUpload production bucket slipwayId (Some f) now rnd sign transfer setOk st)
          = remoteDetails st"
    by blast
qed

theorem failed_transfer_leaves_images_witness:
  "fst (proxyUploadService True \<lparr> type' = ''image/png'', size' = 1000 \<rparr>
          (generateImageId ''s1'' ''1700000000000'' ''abc123'')
          (SignOk ''https://signed'' (Some ''https://public'')) (Onload 500))
     = Rejected ''S3 upload failed with status: 500''
   \<and> slipway (handlePhotoUpload True ''photos'' ''s1'' (Some \<lparr> type' = ''image/png'', size' = 1000 \<rparr>)
        ''1700000000000'' ''abc123'' (SignOk ''https://signed'' (Some ''https://public'')) (Onload 500) True
        (initialViewState \<lparr> slipway := Some (mkSlipway ''s1'' [''50.1'', ''-1.2''] [''imgs'' \<mapsto> JStrs [''a'']]),
                            remoteDetails := [''s1'' \<mapsto> [''imgs'' \<mapsto> JStrs [''a'']]] \<rparr>))
     = Some (mkSlipway ''s1'' [''50.1'', ''-1.2''] [''imgs'' \<mapsto> JStrs [''a'']])
   \<and> remoteDetails (handlePhotoUpload True ''photos'' ''s1'' (Some \<lparr> type' = ''image/png'', size' = 1000 \<rparr>)
        ''1700000000000'' ''abc123'' (SignOk ''https://signed'' (Some ''https://public'')) (Onload 500) True
        (initialViewState \<lparr> slipway := Some (mkSlipway ''s1'' [''50.1'', ''-1.2''] [''imgs'' \<mapsto> JStrs [''a'']]),
                            remoteDetails := [''s1'' \<mapsto> [''imgs'' \<mapsto> JStrs [''a'']]] \<rparr>))
     = [''s1'' \<mapsto> [''imgs'' \<mapsto> JStrs [''a'']]]"
proof -
  let ?f = "\<lparr> type' = ''image/png'', size' = 1000 \<rparr>"
  let ?sl = "mkSlipway ''s1'' [''50.1'', ''-1.2''] [''imgs'' \<mapsto> JStrs [''a'']]"
  let ?st = "initialViewState \<lparr> slipway := Some ?sl, remoteDetails := [''s1'' \<mapsto> [''imgs'' \<mapsto> JStrs [''a'']]] \<rparr>"
  have s500: "showNat 500 = ''500''"
    by (simp add: showNat.simps)
  have r: "fst (proxyUploadService True ?f (generateImageId ''s1'' ''1700000000000'' ''abc123'')
          (SignOk ''https://signed'' (Some ''https://public'')) (Onload 500))
     = Rejected ''S3 upload failed with status: 500''"
    by (simp add: proxyUploadService_def s500)
  have t: "Onload 500 = Onerror \<or> (\<exists>status. Onload 500 = Onload status \<and> status \<noteq> 200)"
    by simp
  note th = failed_transfer_leaves_images [where transfer = "Onload 500" and production = True and f = ?f
      and slipwayId = "''s1''" and now = "''1700000000000''" and rnd = "''abc123''"
      and sign = "SignOk ''https://signed'' (Some ''https://public'')" and bucket = "''photos''"
      and setOk = True and st = ?st]
  from th t have "slipway (handlePhotoUpload True ''photos'' ''s1'' (Some ?f)
        ''1700000000000'' ''abc123'' (SignOk ''https://signed'' (Some ''https://public'')) (Onload 500) True ?st)
      = slipway ?st
    \<and> remoteDetails (handlePhotoUpload True ''photos'' ''s1'' (Some ?f)
        ''1700000000000'' ''abc123'' (SignOk ''https://signed'' (Some ''https://public'')) (Onload 500) True ?st)
      = remoteDetails ?st"
    by blast
  with r show ?thesis by simp
qed

lemma map_of_optStr:
  "map_of (optStr k v) x = (if x = k then map_option JStr v else None)"
  by (cases v) (simp_all add: optStr_def)

lemma map_of_optStrs:
  "map_of (optStrs k v) x = (if x = k then map_option JStrs v else None)"
  by (cases v) (simp_all add: optStrs_def)

lemma map_of_optComments:
  "map_of (optComments k v) x = (if x = k then map_option JComments v else None)"
  by (cases v) (simp_all add: optComments_def)

lemmas obj_lookup = map_add_def map_of_optStr map_of_optStrs map_of_optComments

lemma slipwayObj_Name: "slipwayObj s ''Name'' = None"
  by (simp add: slipwayObj_def obj_lookup)

lemma slipwayObj_Suitability: "slipwayObj s ''Suitability'' = None"
  by (simp add: slipwayObj_def obj_lookup)

lemma slipwayObj_name: "slipwayObj s ''name'' = Some (JStr (name s))"
  by (simp add: slipwayObj_def obj_lookup)

lemma slipwayObj_imgs: "slipwayObj s ''imgs'' = map_option JStrs (imgs s)"
  by (cases "imgs s") (simp_all add: slipwayObj_def obj_lookup)

lemma slipwayObj_suitability: "slipwayObj s ''suitability'' = map_option JStr (suitability s)"
  by (cases "suitability s") (simp_all add: slipwayObj_def obj_lookup)

lemma upload_success_write:
  assumes "valid (validateImageFile f)" and "truthy url" and "slipway st = Some sl"
  shows "remoteDetails (handlePhotoUpload production bucket slipwayId (Some f) now rnd
            (SignOk signed url) (Onload 200) True st)
         = (remoteDetails st)(slipwayId \<mapsto>
              slipwayObj (sl\<lparr> imgs := Some ((case imgs sl of Some xs \<Rightarrow> xs | None \<Rightarrow> [])
                                           @ [generateImageId slipwayId now rnd]) \<rparr>))"
  using assms by (simp add: handlePhotoUpload_def proxyUploadService_def Let_def)

text \<open>
  C6 does not hold of the code. The stored detail record of slipway s1 has the properties
  \<open>Name\<close>, \<open>Suitability\<close> and \<open>imgs\<close>; the view holds the entity the join builds from
  it. After an upload in which every step succeeds, \<open>imgs\<close> has gained the new identifier
  at its end, but the record has been replaced by the entity: \<open>Name\<close> and
  \<open>Suitability\<close> are gone (their values now sit under \<open>name\<close> and \<open>suitability\<close>),
  and the join reads the new record as a slipway named "Unknown" of suitability "Unknown".
\<close>

theorem upload_overwrites_detail_record:
  "(let d0 = [''Name'' \<mapsto> JStr ''Harbour'', ''Suitability'' \<mapsto> JStr ''Portable Only'',
              ''imgs'' \<mapsto> JStrs [''a'']];
        sl = mkSlipway ''s1'' [''50.1'', ''-1.2''] d0;
        st = \<lparr> slipway = Some sl, editedSlipway = Some sl, imageUrls = [], uploadProgress = 0,
               isUploading = False, alerts = [], requests = [], remoteDetails = [''s1'' \<mapsto> d0] \<rparr>;
        st' = handlePhotoUpload True ''photos'' ''s1'' (Some \<lparr> type' = ''image/png'', size' = 1000 \<rparr>)
                ''1700000000000'' ''abc123'' (SignOk ''https://signed'' (Some ''https://public''))
                (Onload 200) True st
    in (case remoteDetails st ''s1'' of
          None \<Rightarrow> False
        | Some d \<Rightarrow> d ''Name'' = Some (JStr ''Harbour'')
                   \<and> d ''Suitability'' = Some (JStr ''Portable Only'')
                   \<and> d ''imgs'' = Some (JStrs [''a'']))
       \<and> (case remoteDetails st' ''s1'' of
          None \<Rightarrow> False
        | Some d \<Rightarrow> d ''Name'' = None
                   \<and> d ''Suitability'' = None
                   \<and> d ''imgs'' = Some (JStrs [''a'', ''slipway_s1_1700000000000_abc123''])
                   \<and> d ''name'' = Some (JStr ''Harbour'')
                   \<and> d ''suitability'' = Some (JStr ''Portable Only'')
                   \<and> name (mkSlipway ''s1'' [''50.1'', ''-1.2''] d) = ''Unknown''
                   \<and> suitability (mkSlipway ''s1'' [''50.1'', ''-1.2''] d) = Some ''Unknown''))"
proof -
  define d0 :: jsobj where "d0 = [''Name'' \<mapsto> JStr ''Harbour'', ''Suitability'' \<mapsto> JStr ''Portable Only'',
              ''imgs'' \<mapsto> JStrs [''a'']]"
  define sl where "sl = mkSlipway ''s1'' [''50.1'', ''-1.2''] d0"
  define st where "st = \<lparr> slipway = Some sl, editedSlipway = Some sl, imageUrls = [], uploadProgress = 0,
               isUploading = False, alerts = [], requests = [], remoteDetails = [''s1'' \<mapsto> d0] \<rparr>"
  define f where "f = \<lparr> type' = ''image/png'', size' = 1000 \<rparr>"
  define d1 where "d1 = slipwayObj (sl\<lparr> imgs := Some ((case imgs sl of Some xs \<Rightarrow> xs | None \<Rightarrow> [])
                                           @ [generateImageId ''s1'' ''1700000000000'' ''abc123'']) \<rparr>)"
  have v: "valid (validateImageFile f)"
    by (simp add: f_def validateImageFile_def allowedTypes_def maxSize_def)
  have u: "truthy (Some ''https://public'')" by (simp add: truthy_def)
  have s: "slipway st = Some sl" by (simp add: st_def)
  have before: "remoteDetails st ''s1'' = Some d0" by (simp add: st_def)
  have after: "remoteDetails (handlePhotoUpload True ''photos'' ''s1'' (Some f) ''1700000000000'' ''abc123''
                  (SignOk ''https://signed'' (Some ''https://public'')) (Onload 200) True st) ''s1'' = Some d1"
    unfolding upload_success_write [OF v u s] d1_def by simp
  have d0_fields: "d0 ''Name'' = Some (JStr ''Harbour'')" "d0 ''Suitability'' = Some (JStr ''Portable Only'')"
      "d0 ''imgs'' = Some (JStrs [''a''])"
    by (simp_all add: d0_def)
  have sl_fields: "name sl = ''Harbour''" "suitability sl = Some ''Portable Only''" "imgs sl = Some [''a'']"
    by (simp_all add: sl_def mkSlipway_def strField_def strsField_def orElse_def d0_fields)
  have d1_absent: "d1 ''Name'' = None" "d1 ''Suitability'' = None"
    by (simp_all add: d1_def slipwayObj_Name slipwayObj_Suitability)
  have d1_fields: "d1 ''imgs'' = Some (JStrs [''a'', ''slipway_s1_1700000000000_abc123''])"
      "d1 ''name'' = Some (JStr ''Harbour'')" "d1 ''suitability'' = Some (JStr ''Portable Only'')"
    by (simp_all add: d1_def slipwayObj_imgs slipwayObj_name slipwayObj_suitability sl_fields generateImageId_def)
  have reread: "name (mkSlipway ''s1'' [''50.1'', ''-1.2''] d1) = ''Unknown''"
      "suitability (mkSlipway ''s1'' [''50.1'', ''-1.2''] d1) = Some ''Unknown''"
    by (simp_all add: mkSlipway_def strField_def orElse_def d1_absent)
  show ?thesis
    unfolding Let_def d0_def [symmetric] sl_def [symmetric] st_def [symmetric] f_def [symmetric]
    by (simp add: before after d0_fields d1_absent d1_fields reread)
qed

end
